theory Spec2Isabelle
  imports Main
begin

section \<open>Data model\<close>

text \<open>
  The application keeps two collections of documents (users and tasks), one server-side
  session per client, the cookies it has set on the response, and the reminder jobs it has
  registered with the cron scheduler. Document identifiers are the store's opaque strings
  and instants are JavaScript's milliseconds since the epoch.
\<close>

type_synonym oid = string
type_synonym millis = int

record user =
  user_id :: oid
  user_email :: string
  user_password :: string

record task =
  task_id :: oid
  task_title :: string
  task_description :: "string option"
  task_deadline :: millis
  task_user :: oid
  task_userEmail :: string

text \<open>
  The payload of a signed token: \<open>index.js\<close> signs \<open>{ id }\<close>, the router of
  \<open>routes/user.js\<close> signs \<open>{ id, email }\<close>. The signature itself is the library's.
\<close>

datatype jwt = Jwt oid "string option"

text \<open>
  The closure of the scheduled callback captures the four arguments of
  \<open>scheduleReminderEmail\<close>; the job holds them with the two numbers of its cron pattern
  \<open>"<minute> <hour> * * *"\<close>.
\<close>

record cron_job =
  cron_minute :: int
  cron_hour :: int
  job_userEmail :: string
  job_taskTitle :: string
  job_taskDescription :: "string option"
  job_taskDeadline :: millis

record state =
  session_userId :: "oid option"
  cookies :: "(string \<times> jwt) list"
  users :: "user list"
  tasks :: "task list"
  jobs :: "cron_job list"

datatype response =
    Redirect string
  | RenderView string
  | RenderHome "task list"
  | RenderShow task
  | RenderError nat string

section \<open>Errors and the error middleware\<close>

text \<open>
  An error value carries the two properties the error middleware reads, \<open>message\<close> and
  \<open>statusCode\<close>. An error raised by the store or by a library has no \<open>statusCode\<close>.
\<close>

record app_error =
  err_message :: string
  err_statusCode :: "nat option"

text \<open>
  Modelled from the spec: the class \<open>AppError\<close> (\<open>AppError.js\<close> is not among the
  sources). \<open>new AppError(message, code)\<close> is an error whose message is \<open>message\<close> and
  whose status code is \<open>code\<close>: the spec's error taxonomy gives every such error the
  status it is rendered with.
\<close>

definition AppError :: "string \<Rightarrow> nat \<Rightarrow> app_error" where
  "AppError message code = \<lparr>err_message = message, err_statusCode = Some code\<rparr>"

text \<open>
  \<open>handleValidationError\<close>: \<open>err.statusCode || 500\<close> and
  \<open>err.message || "Internal Server Error"\<close>, where \<open>||\<close> takes its right operand for
  \<open>undefined\<close>, \<open>0\<close> and the empty string.
\<close>

definition handleValidationError :: "app_error \<Rightarrow> response" where
  "handleValidationError err =
     RenderError
       (case err_statusCode err of
          None \<Rightarrow> 500
        | Some c \<Rightarrow> if c = 0 then 500 else c)
       (if err_message err = [] then ''Internal Server Error'' else err_message err)"

text \<open>
  A handler either completes with a response or throws; either way the effects it had up to
  that point stay. \<open>wrapAsync\<close> (and the \<open>try\<close>/\<open>catch\<close> of the two handlers written
  without it) passes the thrown error to the error middleware.
\<close>

type_synonym handler_result = "(app_error + response) \<times> state"

text \<open>
  The errors the store raises: a string it cannot cast to an identifier, a string it cannot
  cast to a date, and a document its schema validators refuse. None has a \<open>statusCode\<close>.
\<close>

definition ObjectIdCastError :: app_error where
  "ObjectIdCastError = \<lparr>err_message = ''Cast to ObjectId failed'', err_statusCode = None\<rparr>"

definition CastError :: app_error where
  "CastError = \<lparr>err_message = ''Cast to date failed'', err_statusCode = None\<rparr>"

definition ValidationError :: app_error where
  "ValidationError = \<lparr>err_message = ''Validation failed'', err_statusCode = None\<rparr>"

definition wrapAsync :: "handler_result \<Rightarrow> response \<times> state" where
  "wrapAsync r =
     (case r of
        (Inl err, s) \<Rightarrow> (handleValidationError err, s)
      | (Inr resp, s) \<Rightarrow> (resp, s))"

section \<open>Credentials\<close>

text \<open>\<open>User.findOne({ email })\<close>: the first user document with that email, or \<open>null\<close>.\<close>

definition findOne_email :: "user list \<Rightarrow> string \<Rightarrow> user option" where
  "findOne_email us e = find (\<lambda>u. user_email u = e) us"

text \<open>
  \<open>User.findById(id)\<close> with a string taken from a request body. The store first casts
  the string to an identifier; \<open>castId\<close> says which strings it can cast (the format is
  the store's and is a parameter). A string it cannot cast rejects the query with a cast
  error; otherwise the result is the user with that identifier, or \<open>null\<close>.
\<close>

definition User_findById :: "(string \<Rightarrow> bool) \<Rightarrow> user list \<Rightarrow> string \<Rightarrow> app_error + user option" where
  "User_findById castId us i =
     (if castId i then Inr (find (\<lambda>u. user_id u = i) us) else Inl ObjectIdCastError)"

text \<open>
  \<open>Task.findById(id)\<close>, for an identifier in the store's format: the task routes are
  exercised below with identifiers of stored tasks.
\<close>

definition Task_findById :: "task list \<Rightarrow> oid \<Rightarrow> task option" where
  "Task_findById ts i = find (\<lambda>t. task_id t = i) ts"

text \<open>
  \<open>POST /login\<close> of \<open>index.js\<close>. The method \<open>user.comparePassword\<close> belongs to the user
  model, which is not among the sources; the handlers take it as the parameter \<open>cmp\<close>.
\<close>

definition postLogin ::
  "(user \<Rightarrow> string \<Rightarrow> bool) \<Rightarrow> string \<Rightarrow> string \<Rightarrow> state \<Rightarrow> handler_result" where
  "postLogin cmp email password s =
     (case findOne_email (users s) email of
        None \<Rightarrow> (Inl (AppError ''Invalid email or password'' 401), s)
      | Some u \<Rightarrow>
          if \<not> cmp u password then (Inl (AppError ''Invalid email or password'' 401), s)
          else
            (Inr (Redirect ''/tasks''),
             s\<lparr>cookies := cookies s @ [(''jwt'', Jwt (user_id u) None)],
               session_userId := Some (user_id u)\<rparr>))"

text \<open>\<open>POST /login\<close> of the router in \<open>routes/user.js\<close>: the cookie only.\<close>

definition createToken :: "user \<Rightarrow> jwt" where
  "createToken u = Jwt (user_id u) (Some (user_email u))"

definition router_postLogin ::
  "(user \<Rightarrow> string \<Rightarrow> bool) \<Rightarrow> string \<Rightarrow> string \<Rightarrow> state \<Rightarrow> handler_result" where
  "router_postLogin cmp email password s =
     (case findOne_email (users s) email of
        None \<Rightarrow> (Inl (AppError ''Invalid email or password'' 401), s)
      | Some u \<Rightarrow>
          if \<not> cmp u password then (Inl (AppError ''Invalid email or password'' 401), s)
          else
            (Inr (Redirect ''/tasks''),
             s\<lparr>cookies := cookies s @ [(''jwt'', createToken u)]\<rparr>))"

text \<open>
  A login request is refused when no user has the email, or when the user found does not
  pass \<open>comparePassword\<close>.
\<close>

definition badCredentials :: "(user \<Rightarrow> string \<Rightarrow> bool) \<Rightarrow> user list \<Rightarrow> string \<Rightarrow> string \<Rightarrow> bool" where
  "badCredentials cmp us email password =
     (case findOne_email us email of None \<Rightarrow> True | Some u \<Rightarrow> \<not> cmp u password)"

text \<open>
  Modelled from the spec: \<open>User.create\<close> of the user model (\<open>models/user.js\<close> is not
  among the sources). It fails with \<open>DuplicateEmail\<close> when a user with the email is
  already stored; otherwise it stores a new user whose password is kept only as a one-way
  hash. The hash function and the identifier the store assigns are parameters.
\<close>

definition DuplicateEmail :: app_error where
  "DuplicateEmail = \<lparr>err_message = ''DuplicateEmail'', err_statusCode = None\<rparr>"

definition User_create ::
  "(string \<Rightarrow> string) \<Rightarrow> oid \<Rightarrow> string \<Rightarrow> string \<Rightarrow> user list \<Rightarrow> app_error + (user \<times> user list)" where
  "User_create hash newId email password us =
     (case findOne_email us email of
        Some u \<Rightarrow> Inl DuplicateEmail
      | None \<Rightarrow>
          (let newUser = \<lparr>user_id = newId, user_email = email, user_password = hash password\<rparr>
           in Inr (newUser, us @ [newUser])))"

text \<open>\<open>POST /signup\<close> of \<open>index.js\<close>.\<close>

definition postSignup ::
  "(string \<Rightarrow> string) \<Rightarrow> oid \<Rightarrow> string \<Rightarrow> string \<Rightarrow> state \<Rightarrow> handler_result" where
  "postSignup hash newId email password s =
     (case User_create hash newId email password (users s) of
        Inl err \<Rightarrow> (Inl err, s)
      | Inr (newUser, us) \<Rightarrow>
          (Inr (Redirect ''/tasks''),
           s\<lparr>users := us, cookies := cookies s @ [(''jwt'', Jwt (user_id newUser) None)]\<rparr>))"

text \<open>\<open>POST /signup\<close> of the router in \<open>routes/user.js\<close>.\<close>

definition router_postSignup ::
  "(string \<Rightarrow> string) \<Rightarrow> oid \<Rightarrow> string \<Rightarrow> string \<Rightarrow> state \<Rightarrow> handler_result" where
  "router_postSignup hash newId email password s =
     (case User_create hash newId email password (users s) of
        Inl err \<Rightarrow> (Inl err, s)
      | Inr (u, us) \<Rightarrow>
          (Inr (Redirect ''/tasks''),
           s\<lparr>users := us, cookies := cookies s @ [(''jwt'', createToken u)]\<rparr>))"

section \<open>The access guard\<close>

text \<open>
  Modelled from the spec: the middleware \<open>protect\<close> (\<open>middleware/auth.js\<close> is not among
  the sources). It lets a request through to the handler when the session carries a user
  identifier, and otherwise refuses it by redirecting to the login page.
\<close>

definition protect :: "(state \<Rightarrow> response \<times> state) \<Rightarrow> state \<Rightarrow> response \<times> state" where
  "protect handler s =
     (case session_userId s of
        None \<Rightarrow> (Redirect ''/login'', s)
      | Some uid \<Rightarrow> handler s)"

section \<open>The reminder scheduler\<close>

text \<open>
  \<open>Date.getMinutes\<close> and \<open>Date.getHours\<close> read the local wall clock; \<open>tz\<close> is the
  offset of local time from UTC in minutes (taken as fixed: no daylight-saving change).
\<close>

definition getMinutes :: "int \<Rightarrow> millis \<Rightarrow> int" where
  "getMinutes tz t = ((t + tz * 60000) div 60000) mod 60"

definition getHours :: "int \<Rightarrow> millis \<Rightarrow> int" where
  "getHours tz t = ((t + tz * 60000) div 3600000) mod 24"

text \<open>
  \<open>cron.schedule\<close> refuses (throws on) a pattern whose minute is outside 0..59 or whose
  hour is outside 0..23.
\<close>

definition validPattern :: "int \<Rightarrow> int \<Rightarrow> bool" where
  "validPattern m h = (0 \<le> m \<and> m < 60 \<and> 0 \<le> h \<and> h < 24)"

text \<open>
  \<open>scheduleReminderEmail\<close>: the reminder time is the deadline minus one hour, the pattern
  is made of its minute and its hour, and the job is registered. The \<open>catch\<close> around
  \<open>cron.schedule\<close> only logs, so a refused pattern leaves the jobs as they were.
\<close>

definition scheduleReminderEmail ::
  "int \<Rightarrow> string \<Rightarrow> string \<Rightarrow> string option \<Rightarrow> millis \<Rightarrow> cron_job list \<Rightarrow> cron_job list" where
  "scheduleReminderEmail tz userEmail taskTitle taskDescription taskDeadline js =
     (let reminderTime = taskDeadline - 3600 * 1000;
          m = getMinutes tz reminderTime;
          h = getHours tz reminderTime
      in if validPattern m h
         then js @ [\<lparr>cron_minute = m, cron_hour = h, job_userEmail = userEmail,
                     job_taskTitle = taskTitle, job_taskDescription = taskDescription,
                     job_taskDeadline = taskDeadline\<rparr>]
         else js)"

text \<open>
  The scheduler of node-cron ticks once a second and runs a job at every tick that matches
  its pattern. A five-field pattern \<open>"m h * * *"\<close> has no seconds field, which stands for
  second 0, and its three stars match every day of the month, every month and every day of
  the week: the tick \<open>t\<close> matches when it is second 0 of local minute \<open>m\<close> of local
  hour \<open>h\<close>, on whatever day.
\<close>

definition cronFires :: "int \<Rightarrow> cron_job \<Rightarrow> millis \<Rightarrow> bool" where
  "cronFires tz j t =
     (t mod 60000 = 0 \<and> getMinutes tz t = cron_minute j \<and> getHours tz t = cron_hour j)"

text \<open>The first tick at or after \<open>now\<close> that matches the pattern of the job.\<close>

definition nextFire :: "int \<Rightarrow> cron_job \<Rightarrow> millis \<Rightarrow> millis" where
  "nextFire tz j now =
     now + ((cron_hour j * 60 + cron_minute j) * 60000 - (now + tz * 60000)) mod 86400000"

subsection \<open>The callback and the notifier\<close>

record mail =
  mail_to :: string
  mail_subject :: string
  mail_text :: string

text \<open>
  What the callback does to the world: the messages handed to the mail transport, and the
  lines written to the console.
\<close>

record mailer =
  outbox :: "mail list"
  console :: "string list"

datatype 'a outcome = Returned 'a | Thrown string

text \<open>
  \<open>transporter.sendMail\<close>: the transport either accepts the message or fails with an
  error; \<open>transport m = Some e\<close> is the failure with message \<open>e\<close>.
\<close>

definition sendMail :: "(mail \<Rightarrow> string option) \<Rightarrow> mail \<Rightarrow> mailer \<Rightarrow> unit outcome \<times> mailer" where
  "sendMail transport m w =
     (case transport m of None \<Rightarrow> Returned () | Some e \<Rightarrow> Thrown e,
      w\<lparr>outbox := outbox w @ [m]\<rparr>)"

text \<open>
  The message of the reminder. A template literal prints a missing description as
  \<open>undefined\<close>; \<open>toLocaleString\<close> is the runtime's date format.
\<close>

definition reminderMail :: "(millis \<Rightarrow> string) \<Rightarrow> cron_job \<Rightarrow> mail" where
  "reminderMail toLocaleString j =
     \<lparr>mail_to = job_userEmail j,
      mail_subject = ''Reminder: Task '' @ [CHR 0x22] @ job_taskTitle j @ [CHR 0x22] @ '' is due soon'',
      mail_text = ''This is a reminder that your task '' @ [CHR 0x22] @ job_taskTitle j @ [CHR 0x22]
        @ '':'' @ [CHR 0x0A] @ '' ''
        @ (case job_taskDescription j of None \<Rightarrow> ''undefined'' | Some d \<Rightarrow> d)
        @ ''.'' @ [CHR 0x0A] @ '' is due in one hour. '' @ [CHR 0x0A] @ ''Deadline: ''
        @ toLocaleString (job_taskDeadline j) @ [CHR 0x0A] @ ''Please complete it on time.''\<rparr>"

text \<open>
  The callback given to \<open>cron.schedule\<close>: one \<open>sendMail\<close> inside \<open>try\<close>, a line on the
  console either way.
\<close>

definition cronCallback ::
  "(mail \<Rightarrow> string option) \<Rightarrow> (millis \<Rightarrow> string) \<Rightarrow> cron_job \<Rightarrow> mailer \<Rightarrow> unit outcome \<times> mailer" where
  "cronCallback transport toLocaleString j w =
     (case sendMail transport (reminderMail toLocaleString j) w of
        (Returned u, w') \<Rightarrow>
          (Returned (), w'\<lparr>console := console w' @ [''Reminder email sent successfully'']\<rparr>)
      | (Thrown e, w') \<Rightarrow>
          (Returned (), w'\<lparr>console := console w' @ [''Error sending reminder email: '' @ e]\<rparr>))"

text \<open>
  One tick of the scheduler at instant \<open>t\<close>: every registered job that matches runs its
  callback. A callback that threw would stop the tick with the error.
\<close>

fun cronTick ::
  "int \<Rightarrow> (mail \<Rightarrow> string option) \<Rightarrow> (millis \<Rightarrow> string) \<Rightarrow> millis \<Rightarrow> cron_job list \<Rightarrow> mailer
     \<Rightarrow> unit outcome \<times> mailer" where
  "cronTick tz transport toLocaleString t [] w = (Returned (), w)"
| "cronTick tz transport toLocaleString t (j # js) w =
     (if cronFires tz j t
      then (case cronCallback transport toLocaleString j w of
              (Returned u, w') \<Rightarrow> cronTick tz transport toLocaleString t js w'
            | (Thrown e, w') \<Rightarrow> (Thrown e, w'))
      else cronTick tz transport toLocaleString t js w)"

section \<open>Tasks\<close>

text \<open>
  \<open>Task.find({ user: userId })\<close> with the identifier read from the session: the tasks
  whose owner is that identifier, in the store's order.
\<close>

definition Task_find :: "task list \<Rightarrow> oid option \<Rightarrow> task list" where
  "Task_find ts userId = filter (\<lambda>t. Some (task_user t) = userId) ts"

text \<open>\<open>Task.findByIdAndDelete(id)\<close> removes the one document found, if any.\<close>

fun findByIdAndDelete :: "oid \<Rightarrow> task list \<Rightarrow> task list" where
  "findByIdAndDelete i [] = []"
| "findByIdAndDelete i (t # ts) = (if task_id t = i then ts else t # findByIdAndDelete i ts)"

text \<open>The loop \<open>for (const task of tasksToDelete)\<close> of \<open>GET /tasks\<close>.\<close>

fun deleteEach :: "task list \<Rightarrow> task list \<Rightarrow> task list" where
  "deleteEach [] store = store"
| "deleteEach (t # tasksToDelete) store =
     deleteEach tasksToDelete (findByIdAndDelete (task_id t) store)"

text \<open>
  \<open>GET /tasks\<close>. The filter runs synchronously, and \<open>now\<close> is what its calls of
  \<open>Date.now()\<close> return.
\<close>

definition getTasks :: "millis \<Rightarrow> state \<Rightarrow> handler_result" where
  "getTasks now s =
     (let userId = session_userId s;
          allTasks = Task_find (tasks s) userId;
          tasksToDelete = filter (\<lambda>t. task_deadline t < now) allTasks;
          store = deleteEach tasksToDelete (tasks s);
          remainingTasks = Task_find store userId
      in (Inr (RenderHome remainingTasks), s\<lparr>tasks := store\<rparr>))"

text \<open>
  The body of \<open>POST /tasks/new\<close>. A field is falsy (\<open>!title\<close>) when it is missing or the
  empty string.
\<close>

record task_body =
  body_title :: "string option"
  body_description :: "string option"
  body_deadline :: "string option"
  body_userId :: "string option"

definition falsy :: "string option \<Rightarrow> bool" where
  "falsy v = (case v of None \<Rightarrow> True | Some x \<Rightarrow> x = [])"

text \<open>
  \<open>POST /tasks/new\<close>. \<open>parseDate\<close> is \<open>new Date(string)\<close>, with \<open>None\<close> for the
  invalid date (\<open>getTime()\<close> is \<open>NaN\<close>), \<open>now\<close> is \<open>new Date()\<close> and \<open>newId\<close> is
  the identifier the new document gets. \<open>newTask.save()\<close> runs the validators of the task
  schema, which is not among the sources: \<open>accepts\<close> says which documents they let
  through, and a document they refuse rejects the save with a validation error. An error of
  the store is caught like the handler's own and passed to the error middleware; nothing has
  been stored or scheduled by then.
\<close>

definition postTasksNew ::
  "(string \<Rightarrow> millis option) \<Rightarrow> (string \<Rightarrow> bool) \<Rightarrow> (task \<Rightarrow> bool) \<Rightarrow> int \<Rightarrow> millis \<Rightarrow> oid
     \<Rightarrow> task_body \<Rightarrow> state \<Rightarrow> handler_result" where
  "postTasksNew parseDate castId accepts tz now newId b s =
     (if falsy (body_title b) \<or> falsy (body_deadline b) \<or> falsy (body_userId b)
      then (Inl (AppError ''Title, deadline, and user information are required fields'' 400), s)
      else
        (case (body_title b, body_deadline b, body_userId b) of
           (Some title, Some deadline, Some userId) \<Rightarrow>
             (case parseDate deadline of
                None \<Rightarrow> (Inl (AppError ''Invalid deadline date'' 400), s)
              | Some deadlineDate \<Rightarrow>
                  if deadlineDate \<le> now
                  then (Inl (AppError ''Deadline cannot be in the past'' 400), s)
                  else if deadlineDate \<le> now + 3600 * 1000
                  then (Inl (AppError ''Deadline must be at least one hour ahead'' 400), s)
                  else
                    (case User_findById castId (users s) userId of
                       Inl err \<Rightarrow> (Inl err, s)
                     | Inr None \<Rightarrow> (Inl (AppError ''User not found'' 404), s)
                     | Inr (Some u) \<Rightarrow>
                         (let userEmail = user_email u;
                              newTask = \<lparr>task_id = newId, task_title = title,
                                         task_description = body_description b,
                                         task_deadline = deadlineDate, task_user = userId,
                                         task_userEmail = userEmail\<rparr>
                          in if accepts newTask
                             then (Inr (Redirect ''/tasks''),
                                   s\<lparr>tasks := tasks s @ [newTask],
                                     jobs := scheduleReminderEmail tz userEmail (task_title newTask)
                                               (task_description newTask) deadlineDate (jobs s)\<rparr>)
                             else (Inl ValidationError, s))))
         | _ \<Rightarrow> (Inl (AppError ''Title, deadline, and user information are required fields'' 400), s)))"

text \<open>\<open>GET /tasks/:id\<close>.\<close>

definition getTask :: "oid \<Rightarrow> state \<Rightarrow> handler_result" where
  "getTask i s =
     (case Task_findById (tasks s) i of
        None \<Rightarrow> (Inl (AppError ''Task not found'' 404), s)
      | Some t \<Rightarrow> (Inr (RenderShow t), s))"

text \<open>
  The body of \<open>PUT /tasks/:id/edit\<close> is handed to the store as it is, so it may set any
  field of the task. The store casts the deadline to a date (a string that is not a date is
  a cast error) and runs the validators of the task schema, which is not among the sources:
  they are the parameter \<open>valid\<close>.
\<close>

record task_update =
  upd_title :: "string option"
  upd_description :: "string option"
  upd_deadline :: "string option"
  upd_user :: "string option"
  upd_userEmail :: "string option"

definition applyUpdate :: "task_update \<Rightarrow> millis option \<Rightarrow> task \<Rightarrow> task" where
  "applyUpdate upd deadline t =
     t\<lparr>task_title := (case upd_title upd of None \<Rightarrow> task_title t | Some x \<Rightarrow> x),
       task_description := (case upd_description upd of None \<Rightarrow> task_description t | Some x \<Rightarrow> Some x),
       task_deadline := (case deadline of None \<Rightarrow> task_deadline t | Some d \<Rightarrow> d),
       task_user := (case upd_user upd of None \<Rightarrow> task_user t | Some x \<Rightarrow> x),
       task_userEmail := (case upd_userEmail upd of None \<Rightarrow> task_userEmail t | Some x \<Rightarrow> x)\<rparr>"

fun updateFirst :: "oid \<Rightarrow> (task \<Rightarrow> task) \<Rightarrow> task list \<Rightarrow> task list" where
  "updateFirst i f [] = []"
| "updateFirst i f (t # ts) = (if task_id t = i then f t # ts else t # updateFirst i f ts)"

definition findByIdAndUpdate ::
  "(string \<Rightarrow> millis option) \<Rightarrow> (task_update \<Rightarrow> bool) \<Rightarrow> oid \<Rightarrow> task_update \<Rightarrow> task list
     \<Rightarrow> app_error + task list" where
  "findByIdAndUpdate parseDate valid i upd ts =
     (case upd_deadline upd of
        None \<Rightarrow>
          if valid upd then Inr (updateFirst i (applyUpdate upd None) ts) else Inl ValidationError
      | Some d \<Rightarrow>
          (case parseDate d of
             None \<Rightarrow> Inl CastError
           | Some deadline \<Rightarrow>
               if valid upd then Inr (updateFirst i (applyUpdate upd (Some deadline)) ts)
               else Inl ValidationError))"

text \<open>\<open>PUT /tasks/:id/edit\<close>.\<close>

definition putTaskEdit ::
  "(string \<Rightarrow> millis option) \<Rightarrow> (task_update \<Rightarrow> bool) \<Rightarrow> oid \<Rightarrow> task_update \<Rightarrow> state \<Rightarrow> handler_result" where
  "putTaskEdit parseDate valid i upd s =
     (case findByIdAndUpdate parseDate valid i upd (tasks s) of
        Inl err \<Rightarrow> (Inl err, s)
      | Inr ts \<Rightarrow> (Inr (Redirect (''/tasks/'' @ i)), s\<lparr>tasks := ts\<rparr>))"

text \<open>\<open>DELETE /tasks/:id\<close>.\<close>

definition deleteTask :: "oid \<Rightarrow> state \<Rightarrow> handler_result" where
  "deleteTask i s = (Inr (Redirect ''/tasks''), s\<lparr>tasks := findByIdAndDelete i (tasks s)\<rparr>)"

text \<open>The routes as the application mounts them: the guard first, then the handler.\<close>

definition route_getTasks :: "millis \<Rightarrow> state \<Rightarrow> response \<times> state" where
  "route_getTasks now = protect (\<lambda>s. wrapAsync (getTasks now s))"

definition route_postTasksNew ::
  "(string \<Rightarrow> millis option) \<Rightarrow> (string \<Rightarrow> bool) \<Rightarrow> (task \<Rightarrow> bool) \<Rightarrow> int \<Rightarrow> millis \<Rightarrow> oid
     \<Rightarrow> task_body \<Rightarrow> state \<Rightarrow> response \<times> state" where
  "route_postTasksNew parseDate castId accepts tz now newId b =
     protect (\<lambda>s. wrapAsync (postTasksNew parseDate castId accepts tz now newId b s))"

definition route_getTask :: "oid \<Rightarrow> state \<Rightarrow> response \<times> state" where
  "route_getTask i = protect (\<lambda>s. wrapAsync (getTask i s))"

definition route_putTaskEdit ::
  "(string \<Rightarrow> millis option) \<Rightarrow> (task_update \<Rightarrow> bool) \<Rightarrow> oid \<Rightarrow> task_update \<Rightarrow> state \<Rightarrow> response \<times> state" where
  "route_putTaskEdit parseDate valid i upd =
     protect (\<lambda>s. wrapAsync (putTaskEdit parseDate valid i upd s))"

definition route_deleteTask :: "oid \<Rightarrow> state \<Rightarrow> response \<times> state" where
  "route_deleteTask i = protect (\<lambda>s. wrapAsync (deleteTask i s))"

section \<open>Notions of the statements\<close>

text \<open>
  The deadline a creation request asks for: the date its \<open>deadline\<close> field parses to,
  when the field is present, not empty and a date.
\<close>

definition deadlineOf :: "(string \<Rightarrow> millis option) \<Rightarrow> task_body \<Rightarrow> millis option" where
  "deadlineOf parseDate b =
     (case body_deadline b of None \<Rightarrow> None | Some d \<Rightarrow> if d = [] then None else parseDate d)"

text \<open>
  The deadline an update asks for: none when the update has no \<open>deadline\<close> field,
  otherwise the date the field parses to.
\<close>

definition updDeadline :: "(string \<Rightarrow> millis option) \<Rightarrow> task_update \<Rightarrow> millis option" where
  "updDeadline parseDate upd =
     (case upd_deadline upd of None \<Rightarrow> None | Some d \<Rightarrow> parseDate d)"

section \<open>A small instance\<close>

text \<open>
  The concrete inputs at which the properties below are exercised. First, identifiers in
  the store's format (24 hexadecimal digits), two registered users, a hash with its
  comparison, and a visitor who has not logged in.
\<close>

definition aliceId :: oid where
  "aliceId = ''6727a1c0f3b2a94d5e8c7001''"

definition bobId :: oid where
  "bobId = ''6727a1c0f3b2a94d5e8c7002''"

definition carolId :: oid where
  "carolId = ''6727a1c0f3b2a94d5e8c7003''"

definition nobodyId :: oid where
  "nobodyId = ''6727a1c0f3b2a94d5e8c7007''"

definition staleId :: oid where
  "staleId = ''6727a2d4f3b2a94d5e8c7101''"

definition rentId :: oid where
  "rentId = ''6727a2d4f3b2a94d5e8c7102''"

definition bankId :: oid where
  "bankId = ''6727a2d4f3b2a94d5e8c7103''"

definition freshId :: oid where
  "freshId = ''6727a2d4f3b2a94d5e8c7109''"

text \<open>The cast of the instance reads the strings of 24 hexadecimal digits.\<close>

definition demoCast :: "string \<Rightarrow> bool" where
  "demoCast str = (length str = 24 \<and> list_all (\<lambda>c. c \<in> set ''0123456789abcdef'') str)"

definition demoHash :: "string \<Rightarrow> string" where
  "demoHash p = ''hash:'' @ p"

definition demoCompare :: "user \<Rightarrow> string \<Rightarrow> bool" where
  "demoCompare u p = (user_password u = demoHash p)"

definition alice :: user where
  "alice = \<lparr>user_id = aliceId, user_email = ''alice@example.org'', user_password = ''hash:wonderland''\<rparr>"

definition bob :: user where
  "bob = \<lparr>user_id = bobId, user_email = ''bob@example.org'', user_password = ''hash:builder''\<rparr>"

definition visitor :: state where
  "visitor = \<lparr>session_userId = None, cookies = [], users = [alice, bob], tasks = [], jobs = []\<rparr>"

text \<open>
  Noon of 3 November 2026 (UTC), the dates the requests below ask for, three stored tasks
  (two of Alice, one of Bob; the first and the last are past their deadline at noon), and
  Alice's logged-in session.
\<close>

definition noon :: millis where
  "noon = 1793707200000"

definition demoParse :: "string \<Rightarrow> millis option" where
  "demoParse str =
     (if str = ''2026-11-03T14:00'' then Some 1793714400000
      else if str = ''2026-11-03T13:00:00.500Z'' then Some 1793710800500
      else if str = ''2026-11-05T15:30'' then Some 1793892600000
      else None)"

definition staleTask :: task where
  "staleTask = \<lparr>task_id = staleId, task_title = ''Renew passport'', task_description = None,
     task_deadline = 1793523600000, task_user = aliceId, task_userEmail = ''alice@example.org''\<rparr>"

definition rentTask :: task where
  "rentTask = \<lparr>task_id = rentId, task_title = ''Pay rent'', task_description = Some ''November'',
     task_deadline = 1793714400000, task_user = aliceId, task_userEmail = ''alice@example.org''\<rparr>"

definition bobTask :: task where
  "bobTask = \<lparr>task_id = bankId, task_title = ''Call the bank'', task_description = None,
     task_deadline = 1793523600000, task_user = bobId, task_userEmail = ''bob@example.org''\<rparr>"

definition member :: state where
  "member = \<lparr>session_userId = Some aliceId, cookies = [(''jwt'', Jwt aliceId None)],
     users = [alice, bob], tasks = [staleTask, rentTask, bobTask], jobs = []\<rparr>"

text \<open>Creation requests, and the jobs two of them register.\<close>

definition rentBody :: task_body where
  "rentBody = \<lparr>body_title = Some ''Pay rent'', body_description = Some ''November'',
     body_deadline = Some ''2026-11-05T15:30'', body_userId = Some aliceId\<rparr>"

definition rentJob :: cron_job where
  "rentJob = \<lparr>cron_minute = 30, cron_hour = 14, job_userEmail = ''alice@example.org'',
     job_taskTitle = ''Pay rent'', job_taskDescription = Some ''November'',
     job_taskDeadline = 1793892600000\<rparr>"

definition lateBody :: task_body where
  "lateBody = \<lparr>body_title = Some ''Pay rent'', body_description = Some ''November'',
     body_deadline = Some ''2026-11-03T13:00:00.500Z'', body_userId = Some aliceId\<rparr>"

definition lateJob :: cron_job where
  "lateJob = \<lparr>cron_minute = 0, cron_hour = 12, job_userEmail = ''alice@example.org'',
     job_taskTitle = ''Pay rent'', job_taskDescription = Some ''November'',
     job_taskDeadline = 1793710800500\<rparr>"

definition untitledBody :: task_body where
  "untitledBody = \<lparr>body_title = None, body_description = Some ''November'',
     body_deadline = Some ''2026-11-03T14:00'', body_userId = Some aliceId\<rparr>"

definition strangerBody :: task_body where
  "strangerBody = \<lparr>body_title = Some ''Pay rent'', body_description = None,
     body_deadline = Some ''2026-11-03T14:00'', body_userId = Some nobodyId\<rparr>"

definition bobBody :: task_body where
  "bobBody = \<lparr>body_title = Some ''Pay rent'', body_description = None,
     body_deadline = Some ''2026-11-03T14:00'', body_userId = Some bobId\<rparr>"

text \<open>An update of a task, a schema that accepts every update, one that accepts every new task
  and one that only accepts titles of at most five characters, a request whose user
  identifier the store cannot read, and two mail transports.\<close>

definition retitle :: task_update where
  "retitle = \<lparr>upd_title = Some ''Call the bank today'', upd_description = None,
     upd_deadline = Some ''2026-11-03T14:00'', upd_user = None, upd_userEmail = None\<rparr>"

definition anyUpdate :: "task_update \<Rightarrow> bool" where
  "anyUpdate upd = True"

definition anyTask :: "task \<Rightarrow> bool" where
  "anyTask t = True"

definition shortTitlesOnly :: "task \<Rightarrow> bool" where
  "shortTitlesOnly t = (length (task_title t) \<le> 5)"

definition unreadableBody :: task_body where
  "unreadableBody = \<lparr>body_title = Some ''Pay rent'', body_description = None,
     body_deadline = Some ''2026-11-03T14:00'', body_userId = Some ''x''\<rparr>"

definition accepting :: "mail \<Rightarrow> string option" where
  "accepting m = None"

definition refusing :: "mail \<Rightarrow> string option" where
  "refusing m = Some ''ECONNREFUSED''"

definition demoLocale :: "millis \<Rightarrow> string" where
  "demoLocale t = (if t = 1793892600000 then ''11/5/2026, 3:30:00 PM'' else ''a date'')"

definition idle :: mailer where
  "idle = \<lparr>outbox = [], console = []\<rparr>"

lemmas ids = aliceId_def bobId_def carolId_def nobodyId_def staleId_def rentId_def bankId_def
  freshId_def

section \<open>Login and signup\<close>

lemma handleValidationError_AppError:
  "0 < code \<Longrightarrow> msg \<noteq> [] \<Longrightarrow> handleValidationError (AppError msg code) = RenderError code msg"
  by (simp add: handleValidationError_def AppError_def)

text \<open>
  Claim C6. A login request with an unknown email, or with the email of a user and a
  password that user does not have, is answered with the error page of status 401, and the
  state is left as it was: no user identifier enters the session and no \<open>jwt\<close> cookie is
  set. Both login handlers (the one of \<open>index.js\<close> and the router's) behave so.
\<close>

theorem login_bad_credentials_401:
  assumes "badCredentials cmp (users s) email password"
  shows "wrapAsync (postLogin cmp email password s)
           = (RenderError 401 ''Invalid email or password'', s)
       \<and> wrapAsync (router_postLogin cmp email password s)
           = (RenderError 401 ''Invalid email or password'', s)"
  using assms
  by (auto simp: badCredentials_def postLogin_def router_postLogin_def wrapAsync_def
      handleValidationError_AppError split: option.splits)

theorem login_bad_credentials_401_witness:
  "badCredentials demoCompare (users visitor) ''alice@example.org'' ''builder''
   \<and> badCredentials demoCompare (users visitor) ''carol@example.org'' ''builder''
   \<and> wrapAsync (postLogin demoCompare ''alice@example.org'' ''builder'' visitor)
       = (RenderError 401 ''Invalid email or password'', visitor)
   \<and> wrapAsync (router_postLogin demoCompare ''carol@example.org'' ''builder'' visitor)
       = (RenderError 401 ''Invalid email or password'', visitor)"
proof -
  have a: "badCredentials demoCompare (users visitor) ''alice@example.org'' ''builder''"
    by (simp add: badCredentials_def findOne_email_def visitor_def alice_def bob_def
        demoCompare_def demoHash_def ids)
  have c: "badCredentials demoCompare (users visitor) ''carol@example.org'' ''builder''"
    by (simp add: badCredentials_def findOne_email_def visitor_def alice_def bob_def ids)
  show ?thesis
    using a c login_bad_credentials_401 [OF a] login_bad_credentials_401 [OF c] by simp
qed

text \<open>
  Claim C7. A signup request whose email already belongs to a stored user fails with
  \<open>DuplicateEmail\<close> in both signup handlers, and the state is left as it was: no second
  user with that email is stored and no cookie is set.
\<close>

theorem signup_duplicate_email:
  assumes "findOne_email (users s) email = Some u"
  shows "postSignup hash newId email password s = (Inl DuplicateEmail, s)
       \<and> router_postSignup hash newId email password s = (Inl DuplicateEmail, s)"
  using assms by (simp add: postSignup_def router_postSignup_def User_create_def)

theorem signup_duplicate_email_witness:
  "findOne_email (users visitor) ''bob@example.org'' = Some bob
   \<and> postSignup demoHash carolId ''bob@example.org'' ''secret'' visitor = (Inl DuplicateEmail, visitor)
   \<and> router_postSignup demoHash carolId ''bob@example.org'' ''secret'' visitor = (Inl DuplicateEmail, visitor)
   \<and> length (filter (\<lambda>u. user_email u = ''bob@example.org'') (users visitor)) = 1"
proof -
  have f: "findOne_email (users visitor) ''bob@example.org'' = Some bob"
    by (simp add: findOne_email_def visitor_def alice_def bob_def ids)
  have "length (filter (\<lambda>u. user_email u = ''bob@example.org'') (users visitor)) = 1"
    by (simp add: visitor_def alice_def bob_def ids)
  with f signup_duplicate_email [OF f] show ?thesis
    by simp
qed

text \<open>
  Claim C8. A successful signup through \<open>index.js\<close> stores the user and sets the \<open>jwt\<close>
  cookie, but the session still carries no user identifier, so the guard in front of
  \<open>/tasks\<close>, where the signup redirects, sends the new user to the login page. A
  successful login does record the identifier.
\<close>

theorem signup_leaves_session_empty:
  "postSignup demoHash carolId ''carol@example.org'' ''secret'' visitor
     = (Inr (Redirect ''/tasks''),
        visitor\<lparr>users := [alice, bob, \<lparr>user_id = carolId, user_email = ''carol@example.org'',
                                        user_password = ''hash:secret''\<rparr>],
                cookies := [(''jwt'', Jwt carolId None)]\<rparr>)
   \<and> session_userId (snd (postSignup demoHash carolId ''carol@example.org'' ''secret'' visitor)) = None
   \<and> route_getTasks 1793707200000 (snd (postSignup demoHash carolId ''carol@example.org'' ''secret'' visitor))
       = (Redirect ''/login'', snd (postSignup demoHash carolId ''carol@example.org'' ''secret'' visitor))
   \<and> session_userId (snd (postLogin demoCompare ''alice@example.org'' ''wonderland'' visitor)) = Some aliceId"
  by (simp add: postSignup_def User_create_def findOne_email_def visitor_def alice_def bob_def
      demoHash_def route_getTasks_def protect_def postLogin_def demoCompare_def Let_def ids)

section \<open>The wall clock of the cron pattern\<close>

lemma validPattern_get: "validPattern (getMinutes tz t) (getHours tz t)"
  by (simp add: validPattern_def getMinutes_def getHours_def)

lemma day_mod_minute: "(t + 86400000) mod 60000 = t mod (60000::int)"
proof -
  have "(t + 1440 * 60000) mod 60000 = t mod (60000::int)"
    by (rule mod_mult_self1)
  then show ?thesis by simp
qed

lemma day_div_minute: "(t + 86400000) div 60000 = t div (60000::int) + 1440"
proof -
  have "(t + 1440 * 60000) div 60000 = 1440 + t div (60000::int)"
    by (rule div_mult_self1) simp
  then show ?thesis by simp
qed

lemma day_div_hour: "(t + 86400000) div 3600000 = t div (3600000::int) + 24"
proof -
  have "(t + 24 * 3600000) div 3600000 = 24 + t div (3600000::int)"
    by (rule div_mult_self1) simp
  then show ?thesis by simp
qed

lemma cronFires_daily: "cronFires tz j (t + 86400000) = cronFires tz j t"
proof -
  have a: "getMinutes tz (t + 86400000) = getMinutes tz t"
  proof -
    have "(t + 86400000 + tz * 60000) div 60000 = (t + tz * 60000) div 60000 + 24 * 60"
      using day_div_minute [of "t + tz * 60000"] by (simp add: ac_simps)
    then show ?thesis
      unfolding getMinutes_def by (simp only: mod_mult_self1)
  qed
  have b: "getHours tz (t + 86400000) = getHours tz t"
  proof -
    have "(t + 86400000 + tz * 60000) div 3600000 = (t + tz * 60000) div 3600000 + 1 * 24"
      using day_div_hour [of "t + tz * 60000"] by (simp add: ac_simps)
    then show ?thesis
      unfolding getHours_def by (simp only: mod_mult_self1)
  qed
  show ?thesis by (simp add: cronFires_def day_mod_minute a b)
qed

lemma radix_unique:
  fixes c a b r s :: int
  assumes "0 \<le> r" "r < c" "0 \<le> s" "s < c"
  shows "(c * a + r = c * b + s) = (r = s \<and> a = b)"
proof
  assume e: "c * a + r = c * b + s"
  then have "(c * a + r) mod c = (c * b + s) mod c"
    by simp
  then have "r mod c = s mod c"
    by simp
  with assms have rs: "r = s"
    by simp
  with e have "c * a = c * b"
    by simp
  moreover from assms have "c \<noteq> 0"
    by auto
  ultimately have "a = b"
    by simp
  with rs show "r = s \<and> a = b" ..
next
  assume "r = s \<and> a = b"
  then show "c * a + r = c * b + s"
    by simp
qed

lemma minute_index:
  fixes q h m :: int
  assumes "0 \<le> m" "m < 60" "0 \<le> h" "h < 24"
  shows "(q mod 1440 = 60 * h + m) = (q mod 60 = m \<and> (q div 60) mod 24 = h)"
proof -
  have "q mod (60 * 24) = 60 * (q div 60 mod 24) + q mod 60"
    by (rule zmod_zmult2_eq) simp
  then have e: "q mod 1440 = 60 * (q div 60 mod 24) + q mod 60"
    by simp
  have b: "0 \<le> q mod 60" "q mod 60 < 60"
    by simp_all
  show ?thesis
    unfolding e using radix_unique [OF b assms(1,2), of "q div 60 mod 24" h] by blast
qed


lemma millis_index:
  fixes L T :: int
  shows "(L mod 86400000 = 60000 * T) = (L mod 60000 = 0 \<and> (L div 60000) mod 1440 = T)"
proof -
  have "L mod (60000 * 1440) = 60000 * (L div 60000 mod 1440) + L mod 60000"
    by (rule zmod_zmult2_eq) simp
  then have e: "L mod 86400000 = 60000 * (L div 60000 mod 1440) + L mod 60000"
    by simp
  have b: "0 \<le> L mod 60000" "L mod 60000 < 60000"
    by simp_all
  have z: "(0::int) \<le> 0" "(0::int) < 60000"
    by simp_all
  show ?thesis
    unfolding e using radix_unique [OF b z, of "L div 60000 mod 1440" T] by simp
qed

lemma hour_index: "(L::int) div 3600000 = (L div 60000) div 60"
proof -
  have "L div (60000 * 60) = (L div 60000) div 60"
    by (rule zdiv_zmult2_eq) simp
  then show ?thesis by simp
qed

lemma cronFires_iff:
  assumes "validPattern (cron_minute j) (cron_hour j)"
  shows "cronFires tz j t =
    ((t + tz * 60000) mod 86400000 = 60000 * (60 * cron_hour j + cron_minute j))"
proof -
  define L where "L = t + tz * 60000"
  have z: "t mod 60000 = L mod 60000"
    by (simp add: L_def)
  from assms have r: "0 \<le> cron_minute j" "cron_minute j < 60" "0 \<le> cron_hour j" "cron_hour j < 24"
    by (simp_all add: validPattern_def)
  have "cronFires tz j t =
      (L mod 60000 = 0 \<and> (L div 60000) mod 60 = cron_minute j \<and> (L div 60000) div 60 mod 24 = cron_hour j)"
    unfolding cronFires_def getMinutes_def getHours_def z L_def [symmetric] hour_index ..
  also have "\<dots> = (L mod 60000 = 0 \<and> (L div 60000) mod 1440 = 60 * cron_hour j + cron_minute j)"
    unfolding minute_index [OF r] ..
  also have "\<dots> = (L mod 86400000 = 60000 * (60 * cron_hour j + cron_minute j))"
    unfolding millis_index ..
  finally show ?thesis
    unfolding L_def .
qed

lemma nextFire_bounds: "now \<le> nextFire tz j now \<and> nextFire tz j now < now + 86400000"
  by (simp add: nextFire_def)

lemma pattern_in_day:
  assumes "validPattern (cron_minute j) (cron_hour j)"
  shows "0 \<le> 60000 * (60 * cron_hour j + cron_minute j)
       \<and> 60000 * (60 * cron_hour j + cron_minute j) < 86400000"
  using assms by (simp add: validPattern_def)

lemma nextFire_fires:
  assumes v: "validPattern (cron_minute j) (cron_hour j)"
  shows "cronFires tz j (nextFire tz j now)"
proof -
  define T where "T = 60000 * (60 * cron_hour j + cron_minute j)"
  define L where "L = now + tz * 60000"
  have n: "nextFire tz j now + tz * 60000 = L + (T - L) mod 86400000"
    by (simp add: nextFire_def T_def L_def algebra_simps)
  have "(L + (T - L) mod 86400000) mod 86400000 = (L + (T - L)) mod 86400000"
    by (rule mod_add_right_eq)
  also have "\<dots> = T mod 86400000"
    by simp
  also have "\<dots> = T"
    using pattern_in_day [OF v] by (simp add: T_def)
  finally show ?thesis
    unfolding cronFires_iff [OF v] n T_def .
qed

lemma nextFire_first:
  assumes v: "validPattern (cron_minute j) (cron_hour j)"
    and lo: "now \<le> t" and hi: "t < nextFire tz j now"
  shows "\<not> cronFires tz j t"
proof
  assume f: "cronFires tz j t"
  define T where "T = 60000 * (60 * cron_hour j + cron_minute j)"
  define L0 where "L0 = now + tz * 60000"
  define L where "L = t + tz * 60000"
  from f have "L mod 86400000 = T"
    unfolding cronFires_iff [OF v] L_def T_def .
  moreover have "T mod 86400000 = T"
    using pattern_in_day [OF v] by (simp add: T_def)
  ultimately have "L mod 86400000 = T mod 86400000"
    by simp
  then have "(L - L0) mod 86400000 = (T - L0) mod 86400000"
    by (rule mod_diff_cong) simp
  moreover have "0 \<le> L - L0"
    using lo by (simp add: L_def L0_def)
  moreover have "L - L0 < (T - L0) mod 86400000"
    using hi by (simp add: nextFire_def L_def L0_def T_def algebra_simps)
  moreover have "(T - L0) mod 86400000 < 86400000"
    by simp
  ultimately have "(L - L0) mod 86400000 = L - L0" "L - L0 < (L - L0) mod 86400000"
    by simp_all
  then show False
    by simp
qed

section \<open>The reminder scheduler\<close>

text \<open>
  The minute and the hour of a date always make a pattern the scheduler accepts, so
  \<open>scheduleReminderEmail\<close> registers its job whatever the deadline.
\<close>

lemma scheduleReminderEmail_appends:
  "scheduleReminderEmail tz userEmail taskTitle taskDescription taskDeadline js =
     js @ [\<lparr>cron_minute = getMinutes tz (taskDeadline - 3600 * 1000),
             cron_hour = getHours tz (taskDeadline - 3600 * 1000),
             job_userEmail = userEmail, job_taskTitle = taskTitle,
             job_taskDescription = taskDescription, job_taskDeadline = taskDeadline\<rparr>]"
  by (simp add: scheduleReminderEmail_def Let_def validPattern_get)

text \<open>The callback returns normally whatever the transport does; so does a tick.\<close>

lemma cronCallback_returns:
  "cronCallback transport f j w =
     (Returned (),
      \<lparr>outbox = outbox w @ [reminderMail f j],
       console = console w @
         [case transport (reminderMail f j) of
            None \<Rightarrow> ''Reminder email sent successfully''
          | Some e \<Rightarrow> ''Error sending reminder email: '' @ e]\<rparr>)"
  by (cases "transport (reminderMail f j)") (simp_all add: cronCallback_def sendMail_def)

lemma cronTick_returns:
  "fst (cronTick tz transport f t js w) = Returned ()
   \<and> outbox (snd (cronTick tz transport f t js w))
       = outbox w @ map (reminderMail f) (filter (\<lambda>j. cronFires tz j t) js)"
  by (induction js arbitrary: w) (simp_all add: cronCallback_returns)

lemma rent_jobs:
  "jobs (snd (route_postTasksNew demoParse demoCast anyTask 0 noon freshId rentBody member)) = [rentJob]"
  by (simp add: route_postTasksNew_def protect_def wrapAsync_def postTasksNew_def member_def
      rentBody_def falsy_def demoParse_def noon_def User_findById_def demoCast_def anyTask_def alice_def bob_def
      scheduleReminderEmail_def getMinutes_def getHours_def validPattern_def rentJob_def Let_def ids)

text \<open>
  Claim C1. The claim asks for a reminder that fires once, one hour before the deadline, and
  is then discarded. Evaluated on a task created at noon of 3 November with its deadline on
  5 November at 15:30: the handler registers one job with the pattern \<open>30 14 * * *\<close>, and
  that job runs on 3 November at 14:30 (49 hours before the deadline), on 5 November at 14:30
  (the hour before the deadline) and again on 6 November at 14:30 (after the deadline); three
  ticks at those instants hand three messages to the transport.
\<close>

theorem reminder_recurs_daily:
  "jobs (snd (route_postTasksNew demoParse demoCast anyTask 0 noon freshId rentBody member)) = [rentJob]
   \<and> job_taskDeadline rentJob - 3600 * 1000 = 1793889000000
   \<and> cronFires 0 rentJob (1793889000000 - 2 * 86400000)
   \<and> cronFires 0 rentJob 1793889000000
   \<and> cronFires 0 rentJob (1793889000000 + 86400000)
   \<and> length (outbox (snd (cronTick 0 accepting demoLocale (1793889000000 + 86400000) [rentJob]
        (snd (cronTick 0 accepting demoLocale 1793889000000 [rentJob]
          (snd (cronTick 0 accepting demoLocale (1793889000000 - 2 * 86400000) [rentJob] idle))))))) = 3"
proof -
  have a: "cronFires 0 rentJob (1793889000000 - 2 * 86400000)"
    by (simp add: cronFires_def getMinutes_def getHours_def rentJob_def ids)
  have b: "cronFires 0 rentJob 1793889000000"
    by (simp add: cronFires_def getMinutes_def getHours_def rentJob_def ids)
  have c: "cronFires 0 rentJob (1793889000000 + 86400000)"
    by (simp add: cronFires_def getMinutes_def getHours_def rentJob_def ids)
  have d: "job_taskDeadline rentJob - 3600 * 1000 = 1793889000000"
    by (simp add: rentJob_def ids)
  show ?thesis
    using a b c d rent_jobs by (simp add: cronCallback_returns idle_def)
qed

text \<open>
  Claim C2. The claim asks that a reminder whose fire time is already past when it is
  registered fires at once. Evaluated on a request received at noon whose deadline is
  13:00:00.500, which passes the one-hour guard, and whose job is registered 800 ms later,
  after the two store operations: the reminder time 12:00:00.500 is then past, the job does
  not run at the instant of registration nor at the next tick, and its first run is at noon
  of the next day, 23 hours after the deadline.
\<close>

theorem past_fire_time_waits_a_day:
  "jobs (snd (route_postTasksNew demoParse demoCast anyTask 0 noon freshId lateBody member)) = [lateJob]
   \<and> job_taskDeadline lateJob - 3600 * 1000 < noon + 800
   \<and> \<not> cronFires 0 lateJob (noon + 800)
   \<and> \<not> cronFires 0 lateJob (noon + 1000)
   \<and> nextFire 0 lateJob (noon + 800) = noon + 86400000
   \<and> job_taskDeadline lateJob < nextFire 0 lateJob (noon + 800)"
  by (simp add: route_postTasksNew_def protect_def wrapAsync_def postTasksNew_def member_def
      lateBody_def falsy_def demoParse_def noon_def User_findById_def demoCast_def anyTask_def alice_def bob_def
      scheduleReminderEmail_def getMinutes_def getHours_def validPattern_def lateJob_def Let_def
      cronFires_def nextFire_def ids)

text \<open>
  Claim C5. Whatever the transport does with the message, the callback of a reminder
  returns normally, has handed the message to the transport exactly once, and on a failure
  has written the error to the console. A tick of the scheduler therefore returns normally
  too, and the messages it hands over are one per job that fires, the same whether the
  transport fails or not: nothing is sent again after a failure. The handlers of the
  application never call the transport themselves.
\<close>

theorem notifier_failure_absorbed:
  "fst (cronCallback transport f j w) = Returned ()
   \<and> outbox (snd (cronCallback transport f j w)) = outbox w @ [reminderMail f j]
   \<and> (\<forall>e. transport (reminderMail f j) = Some e \<longrightarrow>
         console (snd (cronCallback transport f j w))
           = console w @ [''Error sending reminder email: '' @ e])
   \<and> fst (cronTick tz transport f t js w) = Returned ()
   \<and> outbox (snd (cronTick tz transport f t js w))
       = outbox w @ map (reminderMail f) (filter (\<lambda>j. cronFires tz j t) js)"
  by (simp add: cronCallback_returns cronTick_returns)

theorem notifier_failure_absorbed_witness:
  "refusing (reminderMail demoLocale rentJob) = Some ''ECONNREFUSED''
   \<and> fst (cronCallback refusing demoLocale rentJob idle) = Returned ()
   \<and> outbox (snd (cronCallback refusing demoLocale rentJob idle)) = [reminderMail demoLocale rentJob]
   \<and> console (snd (cronCallback refusing demoLocale rentJob idle))
       = [''Error sending reminder email: ECONNREFUSED'']
   \<and> cronFires 0 rentJob 1793889000000
   \<and> fst (cronTick 0 refusing demoLocale 1793889000000 [rentJob, lateJob] idle) = Returned ()
   \<and> outbox (snd (cronTick 0 refusing demoLocale 1793889000000 [rentJob, lateJob] idle))
       = [reminderMail demoLocale rentJob]"
proof -
  have r: "refusing (reminderMail demoLocale rentJob) = Some ''ECONNREFUSED''"
    by (simp add: refusing_def)
  have f: "cronFires 0 rentJob 1793889000000"
    by (simp add: cronFires_def getMinutes_def getHours_def rentJob_def ids)
  have g: "\<not> cronFires 0 lateJob 1793889000000"
    by (simp add: cronFires_def getMinutes_def getHours_def lateJob_def ids)
  note t = notifier_failure_absorbed [of refusing demoLocale rentJob idle 0 1793889000000
      "[rentJob, lateJob]"]
  from t r have "console (snd (cronCallback refusing demoLocale rentJob idle))
       = console idle @ [''Error sending reminder email: '' @ ''ECONNREFUSED'']"
    by blast
  with t r f g show ?thesis
    by (simp add: idle_def)
qed

section \<open>Creating a task\<close>

lemma postTasksNew_rejected:
  assumes "falsy (body_title b) \<or> falsy (body_userId b) \<or> deadlineOf parseDate b = None
           \<or> (\<exists>d. deadlineOf parseDate b = Some d \<and> d \<le> now + 3600 * 1000)"
  shows "\<exists>msg. msg \<noteq> [] \<and>
    postTasksNew parseDate castId accepts tz now newId b s = (Inl (AppError msg 400), s)"
  using assms
  by (auto simp: postTasksNew_def falsy_def deadlineOf_def split: option.splits if_splits)

lemma postTasksNew_accepted:
  assumes "body_title b = Some title" "title \<noteq> []" "body_userId b = Some uid" "uid \<noteq> []"
    and "deadlineOf parseDate b = Some d" "now + 3600 * 1000 < d"
  shows "postTasksNew parseDate castId accepts tz now newId b s =
     (case User_findById castId (users s) uid of
        Inl err \<Rightarrow> (Inl err, s)
      | Inr None \<Rightarrow> (Inl (AppError ''User not found'' 404), s)
      | Inr (Some u) \<Rightarrow>
          if accepts \<lparr>task_id = newId, task_title = title,
                       task_description = body_description b, task_deadline = d,
                       task_user = uid, task_userEmail = user_email u\<rparr>
          then (Inr (Redirect ''/tasks''),
                s\<lparr>tasks := tasks s @ [\<lparr>task_id = newId, task_title = title,
                                          task_description = body_description b, task_deadline = d,
                                          task_user = uid, task_userEmail = user_email u\<rparr>],
                  jobs := scheduleReminderEmail tz (user_email u) title (body_description b) d
                            (jobs s)\<rparr>)
          else (Inl ValidationError, s))"
  using assms
  by (auto simp: postTasksNew_def falsy_def deadlineOf_def Let_def
      split: option.splits if_splits sum.splits)

lemma postTasksNew_session:
  "postTasksNew parseDate castId accepts tz now newId b (s\<lparr>session_userId := v\<rparr>) =
     (fst (postTasksNew parseDate castId accepts tz now newId b s),
      (snd (postTasksNew parseDate castId accepts tz now newId b s))\<lparr>session_userId := v\<rparr>)"
  by (simp add: postTasksNew_def Let_def split: option.splits sum.splits)

lemma postTasksNew_created:
  assumes "fst (postTasksNew parseDate castId accepts tz now newId b s) = Inr r"
  shows "\<exists>uid u. body_userId b = Some uid \<and> User_findById castId (users s) uid = Inr (Some u)
     \<and> map task_user (tasks (snd (postTasksNew parseDate castId accepts tz now newId b s)))
         = map task_user (tasks s) @ [uid]
     \<and> map task_userEmail (tasks (snd (postTasksNew parseDate castId accepts tz now newId b s)))
         = map task_userEmail (tasks s) @ [user_email u]
     \<and> map job_userEmail (jobs (snd (postTasksNew parseDate castId accepts tz now newId b s)))
         = map job_userEmail (jobs s) @ [user_email u]"
  using assms
  by (auto simp: postTasksNew_def Let_def scheduleReminderEmail_appends
      split: option.splits if_splits sum.splits)

text \<open>
  An error of the store reaches the error middleware without a status code and is rendered
  with status 500: a user identifier the store cannot read, and a document its validators
  refuse.
\<close>

lemma store_error_500:
  "wrapAsync (Inl ObjectIdCastError, s) = (RenderError 500 ''Cast to ObjectId failed'', s)
   \<and> wrapAsync (Inl ValidationError, s) = (RenderError 500 ''Validation failed'', s)"
  by (simp add: wrapAsync_def handleValidationError_def ObjectIdCastError_def
      ValidationError_def)

lemma create_with_unreadable_userId:
  "route_postTasksNew demoParse demoCast anyTask 0 noon freshId unreadableBody member
     = (RenderError 500 ''Cast to ObjectId failed'', member)"
  by (simp add: route_postTasksNew_def protect_def postTasksNew_def member_def
      unreadableBody_def falsy_def demoParse_def noon_def User_findById_def demoCast_def
      store_error_500)

lemma create_refused_by_schema:
  "route_postTasksNew demoParse demoCast shortTitlesOnly 0 noon freshId bobBody member
     = (RenderError 500 ''Validation failed'', member)"
  by (simp add: route_postTasksNew_def protect_def postTasksNew_def member_def
      bobBody_def falsy_def demoParse_def noon_def User_findById_def demoCast_def
      shortTitlesOnly_def alice_def bob_def store_error_500 Let_def ids)

text \<open>
  Claim C3, as stated, fails: the request of a logged-in user without a title, whose
  deadline is well more than an hour ahead and whose user identifier resolves, is answered
  with status 400 and no task is created.
\<close>

theorem create_without_title_counterexample:
  "session_userId member = Some aliceId
   \<and> deadlineOf demoParse untitledBody = Some 1793714400000
   \<and> noon + 3600 * 1000 < 1793714400000
   \<and> body_userId untitledBody = Some aliceId
   \<and> User_findById demoCast (users member) aliceId = Inr (Some alice)
   \<and> route_postTasksNew demoParse demoCast anyTask 0 noon freshId untitledBody member
       = (RenderError 400 ''Title, deadline, and user information are required fields'', member)"
  by (simp add: deadlineOf_def untitledBody_def demoParse_def noon_def User_findById_def
      member_def alice_def bob_def route_postTasksNew_def protect_def wrapAsync_def
      postTasksNew_def falsy_def handleValidationError_AppError demoCast_def ids)

text \<open>
  Claim C3, amended. The creation request of a logged-in user is answered with status 400,
  and nothing is stored, when its title, its deadline or its user identifier is missing or
  empty, when the deadline is not a date, or when the deadline is not strictly more than one
  hour after the time of the request. Otherwise, when the store can read the user identifier
  and no user has it, the request is answered with status 404 and nothing is stored; and
  when a user has it and the store accepts the new document, the task is stored with the
  fields of the request and the email of that user, its reminder is scheduled, and the
  response redirects to \<open>/tasks\<close>.
\<close>

theorem create_task_outcomes:
  assumes "session_userId s = Some a"
  shows
  "(falsy (body_title b) \<or> falsy (body_userId b) \<or> deadlineOf parseDate b = None
      \<or> (\<exists>d. deadlineOf parseDate b = Some d \<and> d \<le> now + 3600 * 1000)
    \<longrightarrow> (\<exists>msg. route_postTasksNew parseDate castId accepts tz now newId b s
                 = (RenderError 400 msg, s)))
   \<and> (\<forall>title uid d.
         body_title b = Some title \<and> title \<noteq> [] \<and> body_userId b = Some uid \<and> uid \<noteq> []
         \<and> deadlineOf parseDate b = Some d \<and> now + 3600 * 1000 < d
         \<and> User_findById castId (users s) uid = Inr None
       \<longrightarrow> route_postTasksNew parseDate castId accepts tz now newId b s
             = (RenderError 404 ''User not found'', s))
   \<and> (\<forall>title uid d u.
         body_title b = Some title \<and> title \<noteq> [] \<and> body_userId b = Some uid \<and> uid \<noteq> []
         \<and> deadlineOf parseDate b = Some d \<and> now + 3600 * 1000 < d
         \<and> User_findById castId (users s) uid = Inr (Some u)
         \<and> accepts \<lparr>task_id = newId, task_title = title, task_description = body_description b,
                     task_deadline = d, task_user = uid, task_userEmail = user_email u\<rparr>
       \<longrightarrow> route_postTasksNew parseDate castId accepts tz now newId b s
             = (Redirect ''/tasks'',
                s\<lparr>tasks := tasks s @ [\<lparr>task_id = newId, task_title = title,
                                          task_description = body_description b,
                                          task_deadline = d, task_user = uid,
                                          task_userEmail = user_email u\<rparr>],
                  jobs := scheduleReminderEmail tz (user_email u) title (body_description b) d
                            (jobs s)\<rparr>))"
proof -
  have route: "route_postTasksNew parseDate castId accepts tz now newId b s
      = wrapAsync (postTasksNew parseDate castId accepts tz now newId b s)"
    using assms by (simp add: route_postTasksNew_def protect_def)
  show ?thesis
  proof (intro conjI impI allI)
    assume "falsy (body_title b) \<or> falsy (body_userId b) \<or> deadlineOf parseDate b = None
        \<or> (\<exists>d. deadlineOf parseDate b = Some d \<and> d \<le> now + 3600 * 1000)"
    then obtain msg where "msg \<noteq> []"
      and "postTasksNew parseDate castId accepts tz now newId b s = (Inl (AppError msg 400), s)"
      using postTasksNew_rejected by blast
    then have "route_postTasksNew parseDate castId accepts tz now newId b s
        = (RenderError 400 msg, s)"
      by (simp add: route wrapAsync_def handleValidationError_AppError)
    then show "\<exists>msg. route_postTasksNew parseDate castId accepts tz now newId b s
        = (RenderError 400 msg, s)" ..
  next
    fix title uid d
    assume "body_title b = Some title \<and> title \<noteq> [] \<and> body_userId b = Some uid \<and> uid \<noteq> []
         \<and> deadlineOf parseDate b = Some d \<and> now + 3600 * 1000 < d
         \<and> User_findById castId (users s) uid = Inr None"
    then have "postTasksNew parseDate castId accepts tz now newId b s
        = (Inl (AppError ''User not found'' 404), s)"
      by (simp add: postTasksNew_accepted)
    then show "route_postTasksNew parseDate castId accepts tz now newId b s
        = (RenderError 404 ''User not found'', s)"
      by (simp add: route wrapAsync_def handleValidationError_AppError)
  next
    fix title uid d u
    assume "body_title b = Some title \<and> title \<noteq> [] \<and> body_userId b = Some uid \<and> uid \<noteq> []
         \<and> deadlineOf parseDate b = Some d \<and> now + 3600 * 1000 < d
         \<and> User_findById castId (users s) uid = Inr (Some u)
         \<and> accepts \<lparr>task_id = newId, task_title = title, task_description = body_description b,
                     task_deadline = d, task_user = uid, task_userEmail = user_email u\<rparr>"
    then have "postTasksNew parseDate castId accepts tz now newId b s
        = (Inr (Redirect ''/tasks''),
           s\<lparr>tasks := tasks s @ [\<lparr>task_id = newId, task_title = title,
                                     task_description = body_description b,
                                     task_deadline = d, task_user = uid,
                                     task_userEmail = user_email u\<rparr>],
             jobs := scheduleReminderEmail tz (user_email u) title (body_description b) d
                       (jobs s)\<rparr>)"
      by (simp add: postTasksNew_accepted)
    then show "route_postTasksNew parseDate castId accepts tz now newId b s
        = (Redirect ''/tasks'',
           s\<lparr>tasks := tasks s @ [\<lparr>task_id = newId, task_title = title,
                                     task_description = body_description b,
                                     task_deadline = d, task_user = uid,
                                     task_userEmail = user_email u\<rparr>],
             jobs := scheduleReminderEmail tz (user_email u) title (body_description b) d
                       (jobs s)\<rparr>)"
      by (simp add: route wrapAsync_def)
  qed
qed

theorem create_task_outcomes_witness:
  "session_userId member = Some aliceId
   \<and> falsy (body_title untitledBody)
   \<and> (\<exists>msg. route_postTasksNew demoParse demoCast anyTask 0 noon freshId untitledBody member
         = (RenderError 400 msg, member))
   \<and> deadlineOf demoParse strangerBody = Some 1793714400000
   \<and> noon + 3600 * 1000 < 1793714400000
   \<and> User_findById demoCast (users member) nobodyId = Inr None
   \<and> route_postTasksNew demoParse demoCast anyTask 0 noon freshId strangerBody member
       = (RenderError 404 ''User not found'', member)
   \<and> deadlineOf demoParse bobBody = Some 1793714400000
   \<and> User_findById demoCast (users member) bobId = Inr (Some bob)
   \<and> route_postTasksNew demoParse demoCast anyTask 0 noon freshId bobBody member
       = (Redirect ''/tasks'',
          member\<lparr>tasks := tasks member @
                     [\<lparr>task_id = freshId, task_title = ''Pay rent'', task_description = None,
                       task_deadline = 1793714400000, task_user = bobId,
                       task_userEmail = ''bob@example.org''\<rparr>],
                 jobs := [\<lparr>cron_minute = 0, cron_hour = 13, job_userEmail = ''bob@example.org'',
                           job_taskTitle = ''Pay rent'', job_taskDescription = None,
                           job_taskDeadline = 1793714400000\<rparr>]\<rparr>)"
proof -
  have h: "session_userId member = Some aliceId"
    by (simp add: member_def)
  have f: "falsy (body_title untitledBody)"
    by (simp add: falsy_def untitledBody_def)
  have d1: "deadlineOf demoParse strangerBody = Some 1793714400000"
    by (simp add: deadlineOf_def strangerBody_def demoParse_def)
  have d2: "deadlineOf demoParse bobBody = Some 1793714400000"
    by (simp add: deadlineOf_def bobBody_def demoParse_def)
  have n: "noon + 3600 * 1000 < 1793714400000"
    by (simp add: noon_def)
  have u1: "User_findById demoCast (users member) nobodyId = Inr None"
    by (simp add: User_findById_def demoCast_def member_def alice_def bob_def ids)
  have u2: "User_findById demoCast (users member) bobId = Inr (Some bob)"
    by (simp add: User_findById_def demoCast_def member_def alice_def bob_def ids)
  have k: "anyTask \<lparr>task_id = freshId, task_title = ''Pay rent'', task_description = None,
      task_deadline = 1793714400000, task_user = bobId, task_userEmail = user_email bob\<rparr>"
    by (simp add: anyTask_def)
  have j: "scheduleReminderEmail 0 (user_email bob) ''Pay rent'' None 1793714400000 (jobs member)
      = [\<lparr>cron_minute = 0, cron_hour = 13, job_userEmail = ''bob@example.org'',
          job_taskTitle = ''Pay rent'', job_taskDescription = None,
          job_taskDeadline = 1793714400000\<rparr>]"
    by (simp add: scheduleReminderEmail_def getMinutes_def getHours_def validPattern_def
        member_def bob_def)
  note t = create_task_outcomes [OF h, where parseDate = demoParse and castId = demoCast
      and accepts = anyTask and tz = 0 and now = noon and newId = freshId]
  have a: "\<exists>msg. route_postTasksNew demoParse demoCast anyTask 0 noon freshId untitledBody member
         = (RenderError 400 msg, member)"
    using t [where b = untitledBody] f by blast
  have b: "route_postTasksNew demoParse demoCast anyTask 0 noon freshId strangerBody member
       = (RenderError 404 ''User not found'', member)"
    using t [where b = strangerBody] d1 n u1 by (simp add: strangerBody_def ids)
  have bb: "body_title bobBody = Some ''Pay rent''" "body_userId bobBody = Some bobId"
    "bobId \<noteq> []" "body_description bobBody = None"
    by (simp_all add: bobBody_def ids)
  note t3 = t [where b = bobBody, THEN conjunct2, THEN conjunct2, rule_format,
      of "''Pay rent''" bobId 1793714400000 bob]
  have "route_postTasksNew demoParse demoCast anyTask 0 noon freshId bobBody member
       = (Redirect ''/tasks'',
          member\<lparr>tasks := tasks member @
                     [\<lparr>task_id = freshId, task_title = ''Pay rent'', task_description = None,
                       task_deadline = 1793714400000, task_user = bobId,
                       task_userEmail = user_email bob\<rparr>],
                 jobs := scheduleReminderEmail 0 (user_email bob) ''Pay rent'' None 1793714400000
                           (jobs member)\<rparr>)"
    using t3 d2 n u2 k bb by simp
  then have c: "route_postTasksNew demoParse demoCast anyTask 0 noon freshId bobBody member
       = (Redirect ''/tasks'',
          member\<lparr>tasks := tasks member @
                     [\<lparr>task_id = freshId, task_title = ''Pay rent'', task_description = None,
                       task_deadline = 1793714400000, task_user = bobId,
                       task_userEmail = ''bob@example.org''\<rparr>],
                 jobs := [\<lparr>cron_minute = 0, cron_hour = 13, job_userEmail = ''bob@example.org'',
                           job_taskTitle = ''Pay rent'', job_taskDescription = None,
                           job_taskDeadline = 1793714400000\<rparr>]\<rparr>)"
    unfolding j by (simp add: bob_def)
  from h f a d1 n u1 b d2 u2 c show ?thesis
    by blast
qed

text \<open>
  Claim C9. Behind the guard, the creation handler never reads the session: the same
  request made under another logged-in user has the same response and the same effect on
  the store and on the scheduler. When a task is created, its owner is the \<open>userId\<close> of
  the body, and its email and the recipient of its reminder are the email of the user that
  identifier resolves to.
\<close>

theorem creation_ignores_session_user:
  assumes "session_userId s = Some a"
  shows "route_postTasksNew parseDate castId accepts tz now newId b (s\<lparr>session_userId := Some a'\<rparr>)
       = (fst (route_postTasksNew parseDate castId accepts tz now newId b s),
          (snd (route_postTasksNew parseDate castId accepts tz now newId b s))\<lparr>session_userId := Some a'\<rparr>)
     \<and> (fst (route_postTasksNew parseDate castId accepts tz now newId b s) = Redirect ''/tasks'' \<longrightarrow>
          (\<exists>uid u. body_userId b = Some uid \<and> User_findById castId (users s) uid = Inr (Some u)
            \<and> map task_user (tasks (snd (route_postTasksNew parseDate castId accepts tz now newId b s)))
                = map task_user (tasks s) @ [uid]
            \<and> map task_userEmail (tasks (snd (route_postTasksNew parseDate castId accepts tz now newId b s)))
                = map task_userEmail (tasks s) @ [user_email u]
            \<and> map job_userEmail (jobs (snd (route_postTasksNew parseDate castId accepts tz now newId b s)))
                = map job_userEmail (jobs s) @ [user_email u]))"
proof (intro conjI impI)
  show "route_postTasksNew parseDate castId accepts tz now newId b (s\<lparr>session_userId := Some a'\<rparr>)
       = (fst (route_postTasksNew parseDate castId accepts tz now newId b s),
          (snd (route_postTasksNew parseDate castId accepts tz now newId b s))\<lparr>session_userId := Some a'\<rparr>)"
    using assms
    by (simp add: route_postTasksNew_def protect_def wrapAsync_def postTasksNew_session
        split: prod.splits sum.splits)
next
  assume r: "fst (route_postTasksNew parseDate castId accepts tz now newId b s) = Redirect ''/tasks''"
  have e: "route_postTasksNew parseDate castId accepts tz now newId b s
      = wrapAsync (postTasksNew parseDate castId accepts tz now newId b s)"
    using assms by (simp add: route_postTasksNew_def protect_def)
  obtain x s' where p: "postTasksNew parseDate castId accepts tz now newId b s = (x, s')"
    by (cases "postTasksNew parseDate castId accepts tz now newId b s")
  from r e p obtain resp where "x = Inr resp"
    by (cases x) (simp_all add: wrapAsync_def handleValidationError_def)
  with p have "fst (postTasksNew parseDate castId accepts tz now newId b s) = Inr resp"
    by simp
  from postTasksNew_created [OF this] e p \<open>x = Inr resp\<close>
  show "\<exists>uid u. body_userId b = Some uid \<and> User_findById castId (users s) uid = Inr (Some u)
            \<and> map task_user (tasks (snd (route_postTasksNew parseDate castId accepts tz now newId b s)))
                = map task_user (tasks s) @ [uid]
            \<and> map task_userEmail (tasks (snd (route_postTasksNew parseDate castId accepts tz now newId b s)))
                = map task_userEmail (tasks s) @ [user_email u]
            \<and> map job_userEmail (jobs (snd (route_postTasksNew parseDate castId accepts tz now newId b s)))
                = map job_userEmail (jobs s) @ [user_email u]"
    by (simp add: wrapAsync_def)
qed

theorem creation_ignores_session_user_witness:
  "session_userId member = Some aliceId
   \<and> body_userId bobBody = Some bobId
   \<and> fst (route_postTasksNew demoParse demoCast anyTask 0 noon freshId bobBody member) = Redirect ''/tasks''
   \<and> route_postTasksNew demoParse demoCast anyTask 0 noon freshId bobBody (member\<lparr>session_userId := Some bobId\<rparr>)
       = (fst (route_postTasksNew demoParse demoCast anyTask 0 noon freshId bobBody member),
          (snd (route_postTasksNew demoParse demoCast anyTask 0 noon freshId bobBody member))
            \<lparr>session_userId := Some bobId\<rparr>)
   \<and> map task_user (tasks (snd (route_postTasksNew demoParse demoCast anyTask 0 noon freshId bobBody member)))
       = [aliceId, aliceId, bobId, bobId]
   \<and> map job_userEmail (jobs (snd (route_postTasksNew demoParse demoCast anyTask 0 noon freshId bobBody member)))
       = [''bob@example.org'']"
proof -
  have h: "session_userId member = Some aliceId"
    by (simp add: member_def ids)
  have b: "body_userId bobBody = Some bobId"
    by (simp add: bobBody_def ids)
  have r: "fst (route_postTasksNew demoParse demoCast anyTask 0 noon freshId bobBody member) = Redirect ''/tasks''"
    by (simp add: route_postTasksNew_def protect_def wrapAsync_def postTasksNew_def member_def
        bobBody_def falsy_def demoParse_def noon_def User_findById_def demoCast_def anyTask_def alice_def bob_def Let_def ids)
  have u: "User_findById demoCast (users member) bobId = Inr (Some bob)"
    by (simp add: User_findById_def demoCast_def anyTask_def member_def alice_def bob_def ids)
  note t = creation_ignores_session_user [OF h, where parseDate = demoParse and castId = demoCast
      and accepts = anyTask and tz = 0 and now = noon and newId = freshId and b = bobBody
      and a' = bobId]
  from t r obtain uid u'
    where i: "body_userId bobBody = Some uid" and l: "User_findById demoCast (users member) uid = Inr (Some u')"
      and m: "map task_user (tasks (snd (route_postTasksNew demoParse demoCast anyTask 0 noon freshId bobBody member)))
            = map task_user (tasks member) @ [uid]"
      and j: "map job_userEmail (jobs (snd (route_postTasksNew demoParse demoCast anyTask 0 noon freshId bobBody member)))
            = map job_userEmail (jobs member) @ [user_email u']"
    by blast
  from b i have uid: "uid = bobId"
    by simp
  with u l have u': "u' = bob"
    by simp
  have tm: "map task_user (tasks member) = [aliceId, aliceId, bobId]"
    by (simp add: member_def staleTask_def rentTask_def bobTask_def ids)
  have jm: "map job_userEmail (jobs member) = []"
    by (simp add: member_def ids)
  have e: "user_email bob = ''bob@example.org''"
    by (simp add: bob_def ids)
  have "map task_user (tasks (snd (route_postTasksNew demoParse demoCast anyTask 0 noon freshId bobBody member)))
       = [aliceId, aliceId, bobId, bobId]"
    unfolding m tm uid by simp
  moreover have "map job_userEmail (jobs (snd (route_postTasksNew demoParse demoCast anyTask 0 noon freshId bobBody member)))
       = [''bob@example.org'']"
    unfolding j jm u' e by simp
  ultimately have "map task_user (tasks (snd (route_postTasksNew demoParse demoCast anyTask 0 noon freshId bobBody member)))
       = [aliceId, aliceId, bobId, bobId]
     \<and> map job_userEmail (jobs (snd (route_postTasksNew demoParse demoCast anyTask 0 noon freshId bobBody member)))
       = [''bob@example.org'']"
    by (rule conjI)
  with h b r t show ?thesis
    by blast
qed

section \<open>Reading the task list\<close>

text \<open>
  The store keeps identifiers unique. Under that invariant, deleting by identifier removes
  exactly the documents with that identifier.
\<close>

lemma findByIdAndDelete_filter:
  "distinct (map task_id ts) \<Longrightarrow> findByIdAndDelete i ts = filter (\<lambda>t. task_id t \<noteq> i) ts"
proof (induction ts)
  case Nil
  then show ?case by simp
next
  case (Cons t ts)
  show ?case
  proof (cases "task_id t = i")
    case True
    from Cons.prems have "task_id t \<notin> task_id ` set ts"
      by simp
    with True have "\<forall>x\<in>set ts. task_id x \<noteq> i"
      by blast
    then have "filter (\<lambda>t. task_id t \<noteq> i) ts = ts"
      by (simp add: filter_id_conv)
    with True show ?thesis by simp
  next
    case False
    with Cons show ?thesis by simp
  qed
qed

lemma deleteEach_filter:
  "distinct (map task_id ts) \<Longrightarrow>
   deleteEach ds ts = filter (\<lambda>t. task_id t \<notin> task_id ` set ds) ts"
proof (induction ds arbitrary: ts)
  case Nil
  then show ?case by simp
next
  case (Cons d ds)
  have d: "distinct (map task_id (filter (\<lambda>t. task_id t \<noteq> task_id d) ts))"
    using Cons.prems by (rule distinct_map_filter)
  show ?case
    using Cons.prems Cons.IH [OF d]
    by (auto simp: findByIdAndDelete_filter intro: filter_cong)
qed

lemma expired_ids:
  assumes "distinct (map task_id ts)" and "t \<in> set ts"
  shows "(task_id t \<in> task_id ` set (filter P ts)) = P t"
proof -
  from assms(1) have "inj_on task_id (set ts)"
    by (simp add: distinct_map)
  with assms(2) show ?thesis
    by (auto simp: inj_on_def)
qed

lemma getTasks_store:
  assumes "distinct (map task_id (tasks s))"
  shows "tasks (snd (getTasks now s)) =
    filter (\<lambda>t. \<not> (Some (task_user t) = session_userId s \<and> task_deadline t < now)) (tasks s)"
proof -
  have "deleteEach (filter (\<lambda>t. task_deadline t < now) (Task_find (tasks s) (session_userId s))) (tasks s)
      = filter (\<lambda>t. task_id t \<notin> task_id ` set (filter (\<lambda>t. Some (task_user t) = session_userId s \<and> task_deadline t < now) (tasks s))) (tasks s)"
    using assms by (simp add: deleteEach_filter Task_find_def conj_commute)
  also have "\<dots> = filter (\<lambda>t. \<not> (Some (task_user t) = session_userId s \<and> task_deadline t < now)) (tasks s)"
  proof (rule filter_cong [OF refl])
    fix t
    assume "t \<in> set (tasks s)"
    then show "(task_id t \<notin> task_id ` set (filter (\<lambda>t. Some (task_user t) = session_userId s \<and> task_deadline t < now) (tasks s)))
        = (\<not> (Some (task_user t) = session_userId s \<and> task_deadline t < now))"
      using expired_ids [OF assms, of t "\<lambda>t. Some (task_user t) = session_userId s \<and> task_deadline t < now"]
      by simp
  qed
  finally show ?thesis
    by (simp add: getTasks_def Let_def)
qed

lemma getTasks_result:
  assumes "distinct (map task_id (tasks s))"
  shows "getTasks now s =
      (Inr (RenderHome (filter (\<lambda>t. Some (task_user t) = session_userId s \<and> now \<le> task_deadline t) (tasks s))),
       s\<lparr>tasks := filter (\<lambda>t. \<not> (Some (task_user t) = session_userId s \<and> task_deadline t < now)) (tasks s)\<rparr>)"
proof -
  have r: "getTasks now s =
      (Inr (RenderHome (Task_find (tasks (snd (getTasks now s))) (session_userId s))),
       s\<lparr>tasks := tasks (snd (getTasks now s))\<rparr>)"
    by (simp add: getTasks_def Let_def)
  have "Task_find (tasks (snd (getTasks now s))) (session_userId s)
      = filter (\<lambda>t. Some (task_user t) = session_userId s \<and> now \<le> task_deadline t) (tasks s)"
    unfolding getTasks_store [OF assms] Task_find_def
    by (auto intro: filter_cong)
  with r getTasks_store [OF assms] show ?thesis
    by simp
qed

text \<open>
  Claim C4. Reading the task list of the logged-in user deletes from the store every task
  of that user whose deadline is before the time of the read, and no other task; the list
  it renders is made of the tasks of that user whose deadline is not before that time.
\<close>

theorem route_getTasks_lazy_expiry:
  assumes "distinct (map task_id (tasks s))" and "session_userId s = Some uid"
  shows "route_getTasks now s =
      (RenderHome (filter (\<lambda>t. task_user t = uid \<and> now \<le> task_deadline t) (tasks s)),
       s\<lparr>tasks := filter (\<lambda>t. \<not> (task_user t = uid \<and> task_deadline t < now)) (tasks s)\<rparr>)"
  using assms(2) getTasks_result [OF assms(1), of now]
  by (simp add: route_getTasks_def protect_def wrapAsync_def)

theorem route_getTasks_lazy_expiry_witness:
  "distinct (map task_id (tasks member)) \<and> session_userId member = Some aliceId
   \<and> route_getTasks noon member = (RenderHome [rentTask], member\<lparr>tasks := [rentTask, bobTask]\<rparr>)"
proof -
  have d: "distinct (map task_id (tasks member))"
    by (simp add: member_def staleTask_def rentTask_def bobTask_def ids)
  have u: "session_userId member = Some aliceId"
    by (simp add: member_def ids)
  have "filter (\<lambda>t. task_user t = aliceId \<and> noon \<le> task_deadline t) (tasks member) = [rentTask]"
    by (simp add: member_def staleTask_def rentTask_def bobTask_def noon_def ids)
  moreover have "filter (\<lambda>t. \<not> (task_user t = aliceId \<and> task_deadline t < noon)) (tasks member) = [rentTask, bobTask]"
    by (simp add: member_def staleTask_def rentTask_def bobTask_def noon_def ids)
  ultimately show ?thesis
    using d u route_getTasks_lazy_expiry [OF d u, of noon] by simp
qed

section \<open>Showing, editing and deleting one task\<close>

lemma findByIdAndDelete_length:
  "Task_findById ts i = Some t \<Longrightarrow> Suc (length (findByIdAndDelete i ts)) = length ts"
  by (induction ts) (auto simp: Task_findById_def split: if_splits)

lemma findByIdAndDelete_gone:
  "distinct (map task_id ts) \<Longrightarrow> Task_findById (findByIdAndDelete i ts) i = None"
  by (simp add: findByIdAndDelete_filter Task_findById_def find_None_iff)

lemma applyUpdate_id: "task_id (applyUpdate upd d t) = task_id t"
  by (simp add: applyUpdate_def)

lemma updateFirst_found:
  "Task_findById ts i = Some t \<Longrightarrow> Task_findById (updateFirst i (applyUpdate upd d) ts) i
     = Some (applyUpdate upd d t)"
  by (induction ts) (auto simp: Task_findById_def applyUpdate_id split: if_splits)

lemma updateFirst_map:
  "distinct (map task_id ts) \<Longrightarrow>
   updateFirst i f ts = map (\<lambda>x. if task_id x = i then f x else x) ts"
proof (induction ts)
  case Nil
  then show ?case by simp
next
  case (Cons t ts)
  show ?case
  proof (cases "task_id t = i")
    case True
    from Cons.prems have "task_id t \<notin> task_id ` set ts"
      by simp
    with True have "\<forall>x\<in>set ts. task_id x \<noteq> i"
      by blast
    then have "map (\<lambda>x. if task_id x = i then f x else x) ts = ts"
      by (simp add: map_idI)
    with True show ?thesis by simp
  next
    case False
    with Cons show ?thesis by simp
  qed
qed

lemma findByIdAndUpdate_accepts:
  assumes "findByIdAndUpdate parseDate valid i upd ts = Inr ts'"
  shows "ts' = updateFirst i (applyUpdate upd (updDeadline parseDate upd)) ts"
  using assms
  by (auto simp: findByIdAndUpdate_def updDeadline_def split: option.splits if_splits)

text \<open>
  Claim C10. For a logged-in user, whoever that is, and the identifier of a stored task,
  whoever owns it: \<open>GET /tasks/:id\<close> renders the task; \<open>DELETE /tasks/:id\<close> removes
  from the store the task with that identifier and no other, so that the identifier is no
  longer found; and \<open>PUT /tasks/:id/edit\<close> with an update the store accepts replaces the
  task with that identifier, and no other, by the task with the fields of the update. No
  hypothesis relates the owner of the task to the user of the session; the identifiers of
  the stored tasks are distinct, as the store keeps them.
\<close>

theorem task_routes_ignore_owner:
  assumes "session_userId s = Some a" and "distinct (map task_id (tasks s))"
    and "Task_findById (tasks s) i = Some t"
  shows "route_getTask i s = (RenderShow t, s)
     \<and> route_deleteTask i s
         = (Redirect ''/tasks'', s\<lparr>tasks := filter (\<lambda>x. task_id x \<noteq> i) (tasks s)\<rparr>)
     \<and> Task_findById (tasks (snd (route_deleteTask i s))) i = None
     \<and> Suc (length (tasks (snd (route_deleteTask i s)))) = length (tasks s)
     \<and> (\<forall>ts. findByIdAndUpdate parseDate valid i upd (tasks s) = Inr ts \<longrightarrow>
          route_putTaskEdit parseDate valid i upd s = (Redirect (''/tasks/'' @ i), s\<lparr>tasks := ts\<rparr>)
          \<and> ts = map (\<lambda>x. if task_id x = i
                             then applyUpdate upd (updDeadline parseDate upd) x else x) (tasks s)
          \<and> Task_findById ts i = Some (applyUpdate upd (updDeadline parseDate upd) t))"
proof (intro conjI allI impI)
  show "route_getTask i s = (RenderShow t, s)"
    using assms by (simp add: route_getTask_def protect_def wrapAsync_def getTask_def)
  have del: "route_deleteTask i s = (Redirect ''/tasks'', s\<lparr>tasks := findByIdAndDelete i (tasks s)\<rparr>)"
    using assms(1) by (simp add: route_deleteTask_def protect_def wrapAsync_def deleteTask_def)
  then show "route_deleteTask i s
         = (Redirect ''/tasks'', s\<lparr>tasks := filter (\<lambda>x. task_id x \<noteq> i) (tasks s)\<rparr>)"
    using assms(2) by (simp add: findByIdAndDelete_filter)
  show "Task_findById (tasks (snd (route_deleteTask i s))) i = None"
    using assms(2) by (simp add: del findByIdAndDelete_gone)
  show "Suc (length (tasks (snd (route_deleteTask i s)))) = length (tasks s)"
    using assms(3) by (simp add: del findByIdAndDelete_length)
next
  fix ts
  assume u: "findByIdAndUpdate parseDate valid i upd (tasks s) = Inr ts"
  then show "route_putTaskEdit parseDate valid i upd s = (Redirect (''/tasks/'' @ i), s\<lparr>tasks := ts\<rparr>)"
    using assms(1) by (simp add: route_putTaskEdit_def protect_def wrapAsync_def putTaskEdit_def)
  from findByIdAndUpdate_accepts [OF u]
  have e: "ts = updateFirst i (applyUpdate upd (updDeadline parseDate upd)) (tasks s)" .
  with assms(2) show "ts = map (\<lambda>x. if task_id x = i
      then applyUpdate upd (updDeadline parseDate upd) x else x) (tasks s)"
    by (simp add: updateFirst_map)
  from e assms(3) show "Task_findById ts i = Some (applyUpdate upd (updDeadline parseDate upd) t)"
    by (simp add: updateFirst_found)
qed

theorem task_routes_ignore_owner_witness:
  "session_userId member = Some aliceId
   \<and> distinct (map task_id (tasks member))
   \<and> Task_findById (tasks member) bankId = Some bobTask
   \<and> task_user bobTask = bobId
   \<and> route_getTask bankId member = (RenderShow bobTask, member)
   \<and> route_deleteTask bankId member = (Redirect ''/tasks'', member\<lparr>tasks := [staleTask, rentTask]\<rparr>)
   \<and> Task_findById (tasks (snd (route_deleteTask bankId member))) bankId = None
   \<and> route_putTaskEdit demoParse anyUpdate bankId retitle member
       = (Redirect (''/tasks/'' @ bankId),
          member\<lparr>tasks := [staleTask, rentTask,
            bobTask\<lparr>task_title := ''Call the bank today'', task_deadline := 1793714400000\<rparr>]\<rparr>)
   \<and> route_deleteTask staleId member = (Redirect ''/tasks'', member\<lparr>tasks := [rentTask, bobTask]\<rparr>)"
proof -
  have h: "session_userId member = Some aliceId"
    by (simp add: member_def)
  have q: "distinct (map task_id (tasks member))"
    by (simp add: member_def staleTask_def rentTask_def bobTask_def ids)
  have f: "Task_findById (tasks member) bankId = Some bobTask"
    by (simp add: Task_findById_def member_def staleTask_def rentTask_def bobTask_def ids)
  have f': "Task_findById (tasks member) staleId = Some staleTask"
    by (simp add: Task_findById_def member_def staleTask_def rentTask_def bobTask_def ids)
  have o: "task_user bobTask = bobId"
    by (simp add: bobTask_def)
  have d: "filter (\<lambda>x. task_id x \<noteq> bankId) (tasks member) = [staleTask, rentTask]"
    by (simp add: member_def staleTask_def rentTask_def bobTask_def ids)
  have d': "filter (\<lambda>x. task_id x \<noteq> staleId) (tasks member) = [rentTask, bobTask]"
    by (simp add: member_def staleTask_def rentTask_def bobTask_def ids)
  have u: "findByIdAndUpdate demoParse anyUpdate bankId retitle (tasks member)
      = Inr [staleTask, rentTask,
            bobTask\<lparr>task_title := ''Call the bank today'', task_deadline := 1793714400000\<rparr>]"
    by (simp add: findByIdAndUpdate_def retitle_def demoParse_def anyUpdate_def member_def
        staleTask_def rentTask_def bobTask_def applyUpdate_def ids)
  note t = task_routes_ignore_owner [OF h q f, of demoParse anyUpdate retitle]
  note t' = task_routes_ignore_owner [OF h q f', of demoParse anyUpdate retitle]
  from t u have "route_putTaskEdit demoParse anyUpdate bankId retitle member
       = (Redirect (''/tasks/'' @ bankId),
          member\<lparr>tasks := [staleTask, rentTask,
            bobTask\<lparr>task_title := ''Call the bank today'', task_deadline := 1793714400000\<rparr>]\<rparr>)"
    by blast
  moreover from t d have "route_deleteTask bankId member
      = (Redirect ''/tasks'', member\<lparr>tasks := [staleTask, rentTask]\<rparr>)"
    by simp
  moreover from t' d' have "route_deleteTask staleId member
      = (Redirect ''/tasks'', member\<lparr>tasks := [rentTask, bobTask]\<rparr>)"
    by simp
  moreover from t have "route_getTask bankId member = (RenderShow bobTask, member)"
    and "Task_findById (tasks (snd (route_deleteTask bankId member))) bankId = None"
    by blast+
  ultimately show ?thesis
    using h q f o by blast
qed

section \<open>The store keeps identifiers unique\<close>

text \<open>
  The hypothesis of the property of the task list is an invariant of the store: every
  handler that changes the tasks keeps their identifiers distinct, given that a new
  document gets an identifier no stored task has.
\<close>

lemma getTasks_keeps_ids_unique:
  assumes "distinct (map task_id (tasks s))"
  shows "distinct (map task_id (tasks (snd (getTasks now s))))"
  unfolding getTasks_store [OF assms] using assms by (rule distinct_map_filter)

lemma deleteTask_keeps_ids_unique:
  assumes "distinct (map task_id (tasks s))"
  shows "distinct (map task_id (tasks (snd (deleteTask i s))))"
proof -
  have "tasks (snd (deleteTask i s)) = filter (\<lambda>t. task_id t \<noteq> i) (tasks s)"
    using assms by (simp add: deleteTask_def findByIdAndDelete_filter)
  with assms show ?thesis
    by (simp add: distinct_map_filter)
qed

lemma updateFirst_ids: "map task_id (updateFirst i (applyUpdate upd d) ts) = map task_id ts"
  by (induction ts) (simp_all add: applyUpdate_id)

lemma putTaskEdit_keeps_ids_unique:
  assumes "distinct (map task_id (tasks s))"
  shows "distinct (map task_id (tasks (snd (putTaskEdit parseDate valid i upd s))))"
proof (cases "findByIdAndUpdate parseDate valid i upd (tasks s)")
  case (Inl err)
  with assms show ?thesis
    by (simp add: putTaskEdit_def)
next
  case (Inr ts)
  from findByIdAndUpdate_accepts [OF Inr]
  have "ts = updateFirst i (applyUpdate upd (updDeadline parseDate upd)) (tasks s)" .
  with assms Inr show ?thesis
    by (simp add: putTaskEdit_def updateFirst_ids)
qed

lemma postTasksNew_keeps_ids_unique:
  assumes "distinct (map task_id (tasks s))" and "newId \<notin> task_id ` set (tasks s)"
  shows "distinct (map task_id (tasks (snd (postTasksNew parseDate castId accepts tz now newId b s))))"
  using assms
  by (auto simp: postTasksNew_def Let_def split: option.splits sum.splits)

end
